theory Spec2Isabelle
  imports Main
begin

section \<open>Python values\<close>

text \<open>
  The three plugins (\<^verbatim>\<open>examples/plugins/file-plugin.py\<close>, \<^verbatim>\<open>examples/plugins/http-plugin.py\<close>
  and \<^verbatim>\<open>test-calc.py\<close>) exchange the values that \<^verbatim>\<open>json.loads\<close> produces and
  \<^verbatim>\<open>json.dumps\<close> consumes: \<^verbatim>\<open>None\<close>, booleans, integers, floats, strings, lists and
  dictionaries. A dictionary is an association list whose lookup is \<open>map_of\<close>. A float is
  kept symbolically (mantissa and binary exponent, the infinities, not-a-number): the
  plugins only test floats for truth and hand them to library functions.
\<close>

datatype pyfloat = Finite int int | Infinite bool | NaN

datatype json =
    JNull
  | JBool bool
  | JInt int
  | JFloat pyfloat
  | JStr string
  | JArr "json list"
  | JObj "(string \<times> json) list"

text \<open>Truth value testing, as \<^verbatim>\<open>not path\<close> and \<^verbatim>\<open>if create_dirs:\<close> use it.\<close>

fun truthy :: "json \<Rightarrow> bool" where
  "truthy JNull = False"
| "truthy (JBool b) = b"
| "truthy (JInt n) = (n \<noteq> 0)"
| "truthy (JFloat (Finite m e)) = (m \<noteq> 0)"
| "truthy (JFloat (Infinite s)) = True"
| "truthy (JFloat NaN) = True"
| "truthy (JStr s) = (s \<noteq> [])"
| "truthy (JArr xs) = (xs \<noteq> [])"
| "truthy (JObj kvs) = (kvs \<noteq> [])"

fun type_name :: "json \<Rightarrow> string" where
  "type_name JNull = ''NoneType''"
| "type_name (JBool b) = ''bool''"
| "type_name (JInt n) = ''int''"
| "type_name (JFloat f) = ''float''"
| "type_name (JStr s) = ''str''"
| "type_name (JArr xs) = ''list''"
| "type_name (JObj kvs) = ''dict''"

definition quoted :: "string \<Rightarrow> string" where
  "quoted s = CHR 0x27 # s @ [CHR 0x27]"

subsection \<open>Exceptions\<close>

text \<open>
  Every exception below is a subclass of \<^verbatim>\<open>Exception\<close>; the argument is what \<^verbatim>\<open>str(e)\<close>
  returns. \<open>LibraryError\<close> stands for whatever a library call raises (\<^verbatim>\<open>OSError\<close>,
  \<^verbatim>\<open>UnicodeError\<close>, \<^verbatim>\<open>requests.RequestException\<close>, \<^verbatim>\<open>SyntaxError\<close>,
  \<^verbatim>\<open>ZeroDivisionError\<close>, \<^verbatim>\<open>RecursionError\<close>, ...). Asynchronous interrupts are not
  modelled.
\<close>

datatype exn =
    ValueError string
  | TypeError string
  | AttributeError string
  | JSONDecodeError string
  | UnsupportedOperation string
  | LibraryError string

fun str_of :: "exn \<Rightarrow> string" where
  "str_of (ValueError m) = m"
| "str_of (TypeError m) = m"
| "str_of (AttributeError m) = m"
| "str_of (JSONDecodeError m) = m"
| "str_of (UnsupportedOperation m) = m"
| "str_of (LibraryError m) = m"

text \<open>\<^verbatim>\<open>except json.JSONDecodeError\<close> catches that class only.\<close>

fun is_JSONDecodeError :: "exn \<Rightarrow> bool" where
  "is_JSONDecodeError (JSONDecodeError m) = True"
| "is_JSONDecodeError e = False"

text \<open>
  \<^verbatim>\<open>params.get(key, default)\<close>: \<^verbatim>\<open>json.loads\<close> may return any value, and only a
  dictionary has the method.
\<close>

definition dict_get :: "json \<Rightarrow> string \<Rightarrow> json \<Rightarrow> exn + json" where
  "dict_get params k dflt =
     (case params of
        JObj kvs \<Rightarrow> Inr (case map_of kvs k of Some v \<Rightarrow> v | None \<Rightarrow> dflt)
      | _ \<Rightarrow> Inl (AttributeError
                 (quoted (type_name params) @ '' object has no attribute '' @ quoted ''get'')))"

definition error_obj :: "string \<Rightarrow> json" where
  "error_obj m = JObj [(''error'', JStr m)]"

section \<open>The process and the library\<close>

text \<open>
  A plugin is one operating-system process. Its state is the argument vector, standard
  input (the whole content, the read position, and whether the stream can seek),
  standard output and the file system. \<^verbatim>\<open>print\<close> appends to the buffer of
  \<^verbatim>\<open>sys.stdout\<close> (\<open>pending\<close>); the buffer is written to descriptor 1 when the
  interpreter exits (standard output is a pipe to the host, hence block buffered), and
  \<open>stdout\<close> is what has reached the host. \<open>fd1_open\<close> tells whether descriptor 1 is
  still open.
\<close>

datatype out_item = Doc json | Raw string

record 'fs proc =
  argv :: "string list"
  stdin_data :: string
  stdin_pos :: nat
  stdin_seekable :: bool
  stdout :: "out_item list"
  pending :: "out_item list"
  fd1_open :: bool
  disk :: 'fs

definition start :: "string list \<Rightarrow> string \<Rightarrow> bool \<Rightarrow> 'fs \<Rightarrow> 'fs proc" where
  "start args input seekable d =
     \<lparr>argv = args, stdin_data = input, stdin_pos = 0, stdin_seekable = seekable,
      stdout = [], pending = [], fd1_open = True, disk = d\<rparr>"

text \<open>
  \<^verbatim>\<open>open\<close> takes a path or an integer file descriptor (\<^verbatim>\<open>True\<close> is the integer 1);
  any other value is a \<^verbatim>\<open>TypeError\<close>.
\<close>

datatype target = Path string | Fd int

fun open_target :: "json \<Rightarrow> exn + target" where
  "open_target (JStr s) = Inr (Path s)"
| "open_target (JInt n) = Inr (Fd n)"
| "open_target (JBool b) = Inr (Fd (if b then 1 else 0))"
| "open_target v =
     Inl (TypeError (''expected str, bytes or os.PathLike object, not '' @ type_name v))"

record http_response =
  status_code :: int
  headers :: "(string \<times> string) list"
  resp_text :: string

datatype pyval = VInt int | VFloat pyfloat | VOther

text \<open>
  The library and the operating system are parameters of the model. A call that can
  raise returns \<open>Inl\<close> of the exception's \<^verbatim>\<open>str()\<close> (of the exception itself for
  \<^verbatim>\<open>json.loads\<close>, whose class the caller inspects).
  \<^item> \<open>json_loads\<close>: \<^verbatim>\<open>json.loads\<close>.
  \<^item> \<open>linesep\<close>: \<^verbatim>\<open>os.linesep\<close>; \<open>path_dirname\<close>: \<^verbatim>\<open>os.path.dirname\<close> on a string.
  \<^item> \<open>os_read fs t\<close>: open \<open>t\<close> for reading, read it to the end and close it; the
    result is the decoded text before newline translation.
  \<^item> \<open>os_open_w fs t\<close>: open \<open>t\<close> with mode \<^verbatim>\<open>'w'\<close> (create or truncate).
  \<^item> \<open>os_write fs t s\<close>: write \<open>s\<close> to the file just opened and close it; the state is
    returned also when the call fails.
  \<^item> \<open>os_makedirs fs d\<close>: \<^verbatim>\<open>os.makedirs(d, exist_ok=True)\<close>.
  \<^item> \<open>requests_get url headers timeout\<close> and \<open>requests_post url data headers timeout\<close>.
  \<^item> \<open>py_eval s\<close>: \<^verbatim>\<open>eval(s, {"__builtins__": {}}, {})\<close> on a string.
  \<^item> \<open>round_float v precision\<close>: \<^verbatim>\<open>round(float(v), precision)\<close>.
\<close>

record 'fs lib =
  json_loads :: "string \<Rightarrow> exn + json"
  linesep :: string
  path_dirname :: "string \<Rightarrow> string"
  os_read :: "'fs \<Rightarrow> target \<Rightarrow> string + string"
  os_open_w :: "'fs \<Rightarrow> target \<Rightarrow> string + 'fs"
  os_write :: "'fs \<Rightarrow> target \<Rightarrow> string \<Rightarrow> string option \<times> 'fs"
  os_makedirs :: "'fs \<Rightarrow> string \<Rightarrow> string option \<times> 'fs"
  requests_get :: "json \<Rightarrow> json \<Rightarrow> json \<Rightarrow> string + http_response"
  requests_post :: "json \<Rightarrow> json \<Rightarrow> json \<Rightarrow> json \<Rightarrow> string + http_response"
  py_eval :: "string \<Rightarrow> string + pyval"
  round_float :: "pyval \<Rightarrow> json \<Rightarrow> string + json"

subsection \<open>Standard input and output\<close>

text \<open>\<^verbatim>\<open>sys.stdin.read()\<close> returns what is left and moves to the end.\<close>

definition stdin_read :: "'fs proc \<Rightarrow> string \<times> 'fs proc" where
  "stdin_read p = (drop (stdin_pos p) (stdin_data p), p\<lparr>stdin_pos := length (stdin_data p)\<rparr>)"

text \<open>\<^verbatim>\<open>sys.stdin.seek(0)\<close> raises \<^verbatim>\<open>io.UnsupportedOperation\<close> on a pipe.\<close>

definition stdin_seek0 :: "'fs proc \<Rightarrow> exn + 'fs proc" where
  "stdin_seek0 p =
     (if stdin_seekable p then Inr (p\<lparr>stdin_pos := 0\<rparr>)
      else Inl (UnsupportedOperation ''underlying stream is not seekable''))"

text \<open>
  \<^verbatim>\<open>str.strip()\<close> removes leading and trailing whitespace; among the 256 characters
  of the model these are the whitespace characters.
\<close>

definition is_space :: "char \<Rightarrow> bool" where
  "is_space c = (c \<in> set [CHR 0x09, CHR 0x0A, CHR 0x0B, CHR 0x0C, CHR 0x0D,
                            CHR 0x1C, CHR 0x1D, CHR 0x1E, CHR 0x1F, CHR 0x20,
                            CHR 0x85, CHR 0xA0])"

definition strip :: "string \<Rightarrow> string" where
  "strip s = rev (dropWhile is_space (rev (dropWhile is_space s)))"

text \<open>\<^verbatim>\<open>print(json.dumps(result))\<close>: one line, one JSON document, into the buffer.\<close>

definition py_print :: "json \<Rightarrow> 'fs proc \<Rightarrow> 'fs proc" where
  "py_print j p = p\<lparr>pending := pending p @ [Doc j]\<rparr>"

text \<open>
  Leaving the interpreter with status \<open>code\<close>: the buffer is flushed; when that fails
  because descriptor 1 is closed the data is lost and the exit status becomes 120.
\<close>

definition py_exit :: "nat \<Rightarrow> 'fs proc \<Rightarrow> nat \<times> 'fs proc" where
  "py_exit code p =
     (if pending p = [] then (code, p)
      else if fd1_open p then (code, p\<lparr>stdout := stdout p @ pending p, pending := []\<rparr>)
      else (120, p\<lparr>pending := []\<rparr>))"

subsection \<open>Text files\<close>

text \<open>
  Files are opened in text mode with the default \<^verbatim>\<open>newline=None\<close>: on reading,
  \<^verbatim>\<open>\r\n\<close> and \<^verbatim>\<open>\r\<close> become \<^verbatim>\<open>\n\<close>; on writing, \<^verbatim>\<open>\n\<close> becomes \<^verbatim>\<open>os.linesep\<close>.
\<close>

fun universal_newlines :: "string \<Rightarrow> string" where
  "universal_newlines [] = []"
| "universal_newlines [c] = (if c = CHR 0x0D then [CHR 0x0A] else [c])"
| "universal_newlines (c # d # s) =
     (if c = CHR 0x0D \<and> d = CHR 0x0A then CHR 0x0A # universal_newlines s
      else if c = CHR 0x0D then CHR 0x0A # universal_newlines (d # s)
      else c # universal_newlines (d # s))"

definition write_newlines :: "string \<Rightarrow> string \<Rightarrow> string" where
  "write_newlines sep s = concat (map (\<lambda>c. if c = CHR 0x0A then sep else [c]) s)"

text \<open>
  \<^verbatim>\<open>with open(path, 'r') as f: content = f.read()\<close>. Leaving the block closes the
  descriptor the file object wraps; with descriptor 1 that is the process's own
  standard output.
\<close>

definition with_open_read :: "'fs lib \<Rightarrow> json \<Rightarrow> 'fs proc \<Rightarrow> (exn + string) \<times> 'fs proc" where
  "with_open_read L path p =
     (case open_target path of
        Inl e \<Rightarrow> (Inl e, p)
      | Inr t \<Rightarrow>
          (let p' = (if t = Fd 1 then p\<lparr>fd1_open := False\<rparr> else p)
           in case os_read L (disk p) t of
                Inl m \<Rightarrow> (Inl (LibraryError m), p')
              | Inr raw \<Rightarrow> (Inr (universal_newlines raw), p')))"

text \<open>
  \<^verbatim>\<open>with open(path, 'w') as f: f.write(content)\<close>. \<^verbatim>\<open>f.write\<close> accepts a string
  only, and its \<^verbatim>\<open>TypeError\<close> names the type of the argument (\<^verbatim>\<open>None\<close> for
  \<^verbatim>\<open>None\<close>). Through descriptor 1 the text goes to standard output when the file
  object is closed, and the descriptor is closed with it.
\<close>

definition write_type_error :: "json \<Rightarrow> exn" where
  "write_type_error content =
     TypeError (''write() argument must be str, not '' @
                (case content of JNull \<Rightarrow> ''None'' | _ \<Rightarrow> type_name content))"

definition with_open_write ::
  "'fs lib \<Rightarrow> json \<Rightarrow> json \<Rightarrow> 'fs proc \<Rightarrow> (exn + unit) \<times> 'fs proc" where
  "with_open_write L path content p =
     (case open_target path of
        Inl e \<Rightarrow> (Inl e, p)
      | Inr t \<Rightarrow>
          if t = Fd 1 then
            (case content of
               JStr s \<Rightarrow>
                 (Inr (),
                  p\<lparr>stdout := stdout p @ (if s = [] then [] else [Raw (write_newlines (linesep L) s)]),
                    fd1_open := False\<rparr>)
             | _ \<Rightarrow>
                 (Inl (write_type_error content), p\<lparr>fd1_open := False\<rparr>))
          else
            (case os_open_w L (disk p) t of
               Inl m \<Rightarrow> (Inl (LibraryError m), p)
             | Inr d1 \<Rightarrow>
                 (case content of
                    JStr s \<Rightarrow>
                      (case os_write L d1 t (write_newlines (linesep L) s) of
                         (Some m, d2) \<Rightarrow> (Inl (LibraryError m), p\<lparr>disk := d2\<rparr>)
                       | (None, d2) \<Rightarrow> (Inr (), p\<lparr>disk := d2\<rparr>))
                  | _ \<Rightarrow>
                      (Inl (write_type_error content), p\<lparr>disk := d1\<rparr>))))"

section \<open>The file plugin\<close>

definition file_metadata :: json where
  "file_metadata = JObj
     [(''name'', JStr ''file''),
      (''version'', JStr ''1.0.0''),
      (''description'', JStr ''File system operations (read, write, copy, move)''),
      (''author'', JStr ''Corynth Team''),
      (''tags'', JArr [JStr ''file'', JStr ''filesystem'', JStr ''io''])]"

definition file_actions :: json where
  "file_actions = JObj
     [(''read'', JObj
         [(''description'', JStr ''Read file contents''),
          (''inputs'', JObj
             [(''path'', JObj [(''type'', JStr ''string''), (''required'', JBool True),
                               (''description'', JStr ''File path to read'')])]),
          (''outputs'', JObj
             [(''content'', JObj [(''type'', JStr ''string''),
                                  (''description'', JStr ''File contents'')])])]),
      (''write'', JObj
         [(''description'', JStr ''Write content to file''),
          (''inputs'', JObj
             [(''path'', JObj [(''type'', JStr ''string''), (''required'', JBool True),
                               (''description'', JStr ''File path to write'')]),
              (''content'', JObj [(''type'', JStr ''string''), (''required'', JBool True),
                                  (''description'', JStr ''Content to write'')]),
              (''create_dirs'', JObj [(''type'', JStr ''boolean''), (''required'', JBool False),
                                      (''default'', JBool False),
                                      (''description'', JStr ''Create parent directories if needed'')])]),
          (''outputs'', JObj
             [(''success'', JObj [(''type'', JStr ''boolean''),
                                  (''description'', JStr ''Write operation success'')])])])]"

definition file_handle_read :: "'fs lib \<Rightarrow> json \<Rightarrow> 'fs proc \<Rightarrow> (exn + json) \<times> 'fs proc" where
  "file_handle_read L params p =
     (case dict_get params ''path'' JNull of
        Inl e \<Rightarrow> (Inl e, p)
      | Inr path \<Rightarrow>
          if \<not> truthy path then (Inl (ValueError ''path parameter is required''), p)
          else (case with_open_read L path p of
                  (Inl e, p') \<Rightarrow> (Inl e, p')
                | (Inr content, p') \<Rightarrow> (Inr (JObj [(''content'', JStr content)]), p')))"

text \<open>
  \<^verbatim>\<open>os.makedirs(os.path.dirname(path), exist_ok=True)\<close>; \<^verbatim>\<open>os.path.dirname\<close> accepts a
  string only.
\<close>

definition make_parent_dirs :: "'fs lib \<Rightarrow> json \<Rightarrow> 'fs proc \<Rightarrow> (exn + unit) \<times> 'fs proc" where
  "make_parent_dirs L path p =
     (case path of
        JStr s \<Rightarrow>
          (case os_makedirs L (disk p) (path_dirname L s) of
             (Some m, d) \<Rightarrow> (Inl (LibraryError m), p\<lparr>disk := d\<rparr>)
           | (None, d) \<Rightarrow> (Inr (), p\<lparr>disk := d\<rparr>))
      | _ \<Rightarrow>
          (Inl (TypeError (''expected str, bytes or os.PathLike object, not '' @ type_name path)),
           p))"

definition file_handle_write :: "'fs lib \<Rightarrow> json \<Rightarrow> 'fs proc \<Rightarrow> (exn + json) \<times> 'fs proc" where
  "file_handle_write L params p =
     (case dict_get params ''path'' JNull of
        Inl e \<Rightarrow> (Inl e, p)
      | Inr path \<Rightarrow>
     (case dict_get params ''content'' (JStr []) of
        Inl e \<Rightarrow> (Inl e, p)
      | Inr content \<Rightarrow>
     (case dict_get params ''create_dirs'' (JBool False) of
        Inl e \<Rightarrow> (Inl e, p)
      | Inr create_dirs \<Rightarrow>
          if \<not> truthy path then (Inl (ValueError ''path parameter is required''), p)
          else
            (case (if truthy create_dirs then make_parent_dirs L path p else (Inr (), p)) of
               (Inl e, p1) \<Rightarrow> (Inl e, p1)
             | (Inr u, p1) \<Rightarrow>
                 (case with_open_write L path content p1 of
                    (Inl e, p2) \<Rightarrow> (Inl e, p2)
                  | (Inr u', p2) \<Rightarrow> (Inr (JObj [(''success'', JBool True)]), p2))))))"

text \<open>The body of the \<^verbatim>\<open>try\<close> block of \<^verbatim>\<open>FilePlugin.execute\<close>.\<close>

definition file_dispatch :: "'fs lib \<Rightarrow> string \<Rightarrow> json \<Rightarrow> 'fs proc \<Rightarrow> (exn + json) \<times> 'fs proc" where
  "file_dispatch L action params p =
     (if action = ''read'' then file_handle_read L params p
      else if action = ''write'' then file_handle_write L params p
      else (Inl (ValueError (''Unknown action: '' @ action)), p))"

text \<open>\<^verbatim>\<open>except Exception as e: return {"error": str(e)}\<close>.\<close>

definition catch_all :: "(exn + json) \<times> 'fs proc \<Rightarrow> json \<times> 'fs proc" where
  "catch_all r = (case r of (Inl e, p) \<Rightarrow> (error_obj (str_of e), p) | (Inr v, p) \<Rightarrow> (v, p))"

definition file_execute :: "'fs lib \<Rightarrow> string \<Rightarrow> json \<Rightarrow> 'fs proc \<Rightarrow> json \<times> 'fs proc" where
  "file_execute L action params p = catch_all (file_dispatch L action params p)"

section \<open>The entry point\<close>

text \<open>
  The request reader of \<^verbatim>\<open>file-plugin.py\<close> and \<^verbatim>\<open>test-calc.py\<close>:
  \<^verbatim>\<open>
  try:
      params_data = sys.stdin.read().strip()
      params = json.loads(params_data) if params_data else {}
  except json.JSONDecodeError:
      params = {}
  \<close>
  An exception of another class leaves \<^verbatim>\<open>main\<close>.
\<close>

definition except_JSONDecodeError :: "(exn + json) \<times> 'fs proc \<Rightarrow> (exn + json) \<times> 'fs proc" where
  "except_JSONDecodeError r =
     (case r of
        (Inl e, p) \<Rightarrow> if is_JSONDecodeError e then (Inr (JObj []), p) else (Inl e, p)
      | (Inr v, p) \<Rightarrow> (Inr v, p))"

definition read_params :: "'fs lib \<Rightarrow> 'fs proc \<Rightarrow> (exn + json) \<times> 'fs proc" where
  "read_params L p =
     except_JSONDecodeError
       (case stdin_read p of
          (s, p1) \<Rightarrow>
            (let params_data = strip s
             in if params_data \<noteq> [] then (json_loads L params_data, p1)
                else (Inr (JObj []), p1)))"

text \<open>
  The request reader of \<^verbatim>\<open>http-plugin.py\<close>:
  \<^verbatim>\<open>
  try:
      params = json.loads(sys.stdin.read()) if sys.stdin.read() else {}
      sys.stdin.seek(0)  # Reset for re-reading
      params_data = sys.stdin.read().strip()
      if params_data:
          params = json.loads(params_data)
      else:
          params = {}
  except json.JSONDecodeError:
      params = {}
  \<close>
  The condition of the conditional expression is evaluated first and consumes the input;
  the read inside \<^verbatim>\<open>json.loads\<close> follows it.
\<close>

definition http_read_params :: "'fs lib \<Rightarrow> 'fs proc \<Rightarrow> (exn + json) \<times> 'fs proc" where
  "http_read_params L p =
     except_JSONDecodeError
       (case stdin_read p of
          (c, p1) \<Rightarrow>
            (case (if c \<noteq> [] then (case stdin_read p1 of (s, p2) \<Rightarrow> (json_loads L s, p2))
                   else (Inr (JObj []), p1)) of
               (Inl e, p2) \<Rightarrow> (Inl e, p2)
             | (Inr params0, p2) \<Rightarrow>
                 (case stdin_seek0 p2 of
                    Inl e \<Rightarrow> (Inl e, p2)
                  | Inr p3 \<Rightarrow>
                      (case stdin_read p3 of
                         (s, p4) \<Rightarrow>
                           (let params_data = strip s
                            in if params_data \<noteq> [] then (json_loads L params_data, p4)
                               else (Inr (JObj []), p4))))))"

text \<open>
  \<^verbatim>\<open>main\<close>, the same in the three files but for the reader. An exception that leaves
  \<^verbatim>\<open>main\<close> ends the process with a traceback on standard error and exit status 1.
\<close>

definition plugin_main ::
  "('fs proc \<Rightarrow> (exn + json) \<times> 'fs proc) \<Rightarrow> json \<Rightarrow> json \<Rightarrow>
   (string \<Rightarrow> json \<Rightarrow> 'fs proc \<Rightarrow> json \<times> 'fs proc) \<Rightarrow> 'fs proc \<Rightarrow> nat \<times> 'fs proc" where
  "plugin_main reader metadata actions execute p =
     (if length (argv p) < 2 then
        py_exit 1 (py_print (error_obj ''action required as first argument'') p)
      else
        (let action = argv p ! 1
         in case reader p of
              (Inl e, p1) \<Rightarrow> py_exit 1 p1
            | (Inr params, p1) \<Rightarrow>
                (case (if action = ''metadata'' then (metadata, p1)
                       else if action = ''actions'' then (actions, p1)
                       else execute action params p1) of
                   (result, p2) \<Rightarrow> py_exit 0 (py_print result p2))))"

definition file_main :: "'fs lib \<Rightarrow> 'fs proc \<Rightarrow> nat \<times> 'fs proc" where
  "file_main L = plugin_main (read_params L) file_metadata file_actions (file_execute L)"

section \<open>The HTTP plugin\<close>

definition http_metadata :: json where
  "http_metadata = JObj
     [(''name'', JStr ''http''),
      (''version'', JStr ''1.0.0''),
      (''description'', JStr ''HTTP client for REST API calls and web requests''),
      (''author'', JStr ''Corynth Team''),
      (''tags'', JArr [JStr ''http'', JStr ''web'', JStr ''api'', JStr ''rest''])]"

definition http_outputs :: json where
  "http_outputs = JObj
     [(''status_code'', JObj [(''type'', JStr ''number''),
                              (''description'', JStr ''HTTP status code'')]),
      (''headers'', JObj [(''type'', JStr ''object''),
                          (''description'', JStr ''Response headers'')]),
      (''body'', JObj [(''type'', JStr ''string''),
                       (''description'', JStr ''Response body'')])]"

definition http_actions :: json where
  "http_actions = JObj
     [(''get'', JObj
         [(''description'', JStr ''Perform HTTP GET request''),
          (''inputs'', JObj
             [(''url'', JObj [(''type'', JStr ''string''), (''required'', JBool True),
                              (''description'', JStr ''URL to request'')]),
              (''headers'', JObj [(''type'', JStr ''object''), (''required'', JBool False),
                                  (''description'', JStr ''Request headers'')]),
              (''timeout'', JObj [(''type'', JStr ''number''), (''required'', JBool False),
                                  (''default'', JInt 30),
                                  (''description'', JStr ''Request timeout in seconds'')])]),
          (''outputs'', http_outputs)]),
      (''post'', JObj
         [(''description'', JStr ''Perform HTTP POST request''),
          (''inputs'', JObj
             [(''url'', JObj [(''type'', JStr ''string''), (''required'', JBool True),
                              (''description'', JStr ''URL to request'')]),
              (''body'', JObj [(''type'', JStr ''string''), (''required'', JBool False),
                               (''description'', JStr ''Request body'')]),
              (''headers'', JObj [(''type'', JStr ''object''), (''required'', JBool False),
                                  (''description'', JStr ''Request headers'')]),
              (''timeout'', JObj [(''type'', JStr ''number''), (''required'', JBool False),
                                  (''default'', JInt 30),
                                  (''description'', JStr ''Request timeout in seconds'')])]),
          (''outputs'', http_outputs)])]"

definition response_obj :: "http_response \<Rightarrow> json" where
  "response_obj r = JObj
     [(''status_code'', JInt (status_code r)),
      (''headers'', JObj (map (\<lambda>(k, v). (k, JStr v)) (headers r))),
      (''body'', JStr (resp_text r))]"

definition http_handle_get :: "'fs lib \<Rightarrow> json \<Rightarrow> 'fs proc \<Rightarrow> (exn + json) \<times> 'fs proc" where
  "http_handle_get L params p =
     (case dict_get params ''url'' JNull of
        Inl e \<Rightarrow> (Inl e, p)
      | Inr url \<Rightarrow>
     (case dict_get params ''headers'' (JObj []) of
        Inl e \<Rightarrow> (Inl e, p)
      | Inr hdrs \<Rightarrow>
     (case dict_get params ''timeout'' (JInt 30) of
        Inl e \<Rightarrow> (Inl e, p)
      | Inr timeout \<Rightarrow>
          if \<not> truthy url then (Inl (ValueError ''url parameter is required''), p)
          else (case requests_get L url hdrs timeout of
                  Inl m \<Rightarrow> (Inl (LibraryError m), p)
                | Inr r \<Rightarrow> (Inr (response_obj r), p)))))"

definition http_handle_post :: "'fs lib \<Rightarrow> json \<Rightarrow> 'fs proc \<Rightarrow> (exn + json) \<times> 'fs proc" where
  "http_handle_post L params p =
     (case dict_get params ''url'' JNull of
        Inl e \<Rightarrow> (Inl e, p)
      | Inr url \<Rightarrow>
     (case dict_get params ''body'' (JStr []) of
        Inl e \<Rightarrow> (Inl e, p)
      | Inr body \<Rightarrow>
     (case dict_get params ''headers'' (JObj []) of
        Inl e \<Rightarrow> (Inl e, p)
      | Inr hdrs \<Rightarrow>
     (case dict_get params ''timeout'' (JInt 30) of
        Inl e \<Rightarrow> (Inl e, p)
      | Inr timeout \<Rightarrow>
          if \<not> truthy url then (Inl (ValueError ''url parameter is required''), p)
          else (case requests_post L url body hdrs timeout of
                  Inl m \<Rightarrow> (Inl (LibraryError m), p)
                | Inr r \<Rightarrow> (Inr (response_obj r), p))))))"

definition http_dispatch :: "'fs lib \<Rightarrow> string \<Rightarrow> json \<Rightarrow> 'fs proc \<Rightarrow> (exn + json) \<times> 'fs proc" where
  "http_dispatch L action params p =
     (if action = ''get'' then http_handle_get L params p
      else if action = ''post'' then http_handle_post L params p
      else (Inl (ValueError (''Unknown action: '' @ action)), p))"

definition http_execute :: "'fs lib \<Rightarrow> string \<Rightarrow> json \<Rightarrow> 'fs proc \<Rightarrow> json \<times> 'fs proc" where
  "http_execute L action params p = catch_all (http_dispatch L action params p)"

definition http_main :: "'fs lib \<Rightarrow> 'fs proc \<Rightarrow> nat \<times> 'fs proc" where
  "http_main L = plugin_main (http_read_params L) http_metadata http_actions (http_execute L)"

section \<open>The calculator plugin\<close>

definition calc_metadata :: json where
  "calc_metadata = JObj
     [(''name'', JStr ''calculator''),
      (''version'', JStr ''1.0.0''),
      (''description'', JStr ''Mathematical calculations and unit conversions''),
      (''author'', JStr ''Corynth Team''),
      (''tags'', JArr [JStr ''math'', JStr ''calculation'', JStr ''utility''])]"

definition calc_actions :: json where
  "calc_actions = JObj
     [(''calculate'', JObj
         [(''description'', JStr ''Perform mathematical calculations''),
          (''inputs'', JObj
             [(''expression'', JObj [(''type'', JStr ''string''), (''required'', JBool True),
                                     (''description'', JStr ''Mathematical expression to evaluate'')]),
              (''precision'', JObj [(''type'', JStr ''number''), (''required'', JBool False),
                                    (''default'', JInt 2),
                                    (''description'', JStr ''Decimal precision'')])]),
          (''outputs'', JObj
             [(''result'', JObj [(''type'', JStr ''number''),
                                 (''description'', JStr ''Calculation result'')]),
              (''expression'', JObj [(''type'', JStr ''string''),
                                     (''description'', JStr ''Original expression'')])])])]"

definition allowed_chars :: "char list" where
  "allowed_chars = ''0123456789+-*/.()'' @ [CHR 0x0A, CHR 0x09, CHR 0x20]"

text \<open>
  \<^verbatim>\<open>all(c in allowed_chars for c in expression)\<close> when \<^verbatim>\<open>expression\<close> is a list (or a
  dictionary, which iterates over its keys): the test stops at the first element that is
  not in the set, and hashing a list or a dictionary raises.
\<close>

fun all_allowed_items :: "json list \<Rightarrow> exn + bool" where
  "all_allowed_items [] = Inr True"
| "all_allowed_items (JArr ys # xs) =
     Inl (TypeError (''unhashable type: '' @ quoted ''list''))"
| "all_allowed_items (JObj kvs # xs) =
     Inl (TypeError (''unhashable type: '' @ quoted ''dict''))"
| "all_allowed_items (JStr s # xs) =
     (if length s = 1 \<and> hd s \<in> set allowed_chars then all_allowed_items xs else Inr False)"
| "all_allowed_items (x # xs) = Inr False"

definition all_allowed :: "json \<Rightarrow> exn + bool" where
  "all_allowed expression =
     (case expression of
        JStr s \<Rightarrow> Inr (list_all (\<lambda>c. c \<in> set allowed_chars) s)
      | JArr xs \<Rightarrow> all_allowed_items xs
      | JObj kvs \<Rightarrow> all_allowed_items (map (\<lambda>(k, v). JStr k) kvs)
      | _ \<Rightarrow> Inl (TypeError (quoted (type_name expression) @ '' object is not iterable'')))"

text \<open>
  The inner \<^verbatim>\<open>try\<close> block; \<open>Inl\<close> carries the \<^verbatim>\<open>str()\<close> of what it raised.
  \<^verbatim>\<open>eval\<close> accepts a string only.
\<close>

definition calc_evaluate :: "'fs lib \<Rightarrow> json \<Rightarrow> json \<Rightarrow> string + json" where
  "calc_evaluate L expression precision =
     (case (case expression of
              JStr s \<Rightarrow> py_eval L s
            | _ \<Rightarrow> Inl ''eval() arg 1 must be a string, bytes or code object'') of
        Inl m \<Rightarrow> Inl m
      | Inr v \<Rightarrow>
          (case v of
             VOther \<Rightarrow> Inl ''Expression must result in a number''
           | _ \<Rightarrow> round_float L v precision))"

definition calc_handle_calculate ::
  "'fs lib \<Rightarrow> json \<Rightarrow> 'fs proc \<Rightarrow> (exn + json) \<times> 'fs proc" where
  "calc_handle_calculate L params p =
     (case dict_get params ''expression'' JNull of
        Inl e \<Rightarrow> (Inl e, p)
      | Inr expression \<Rightarrow>
     (case dict_get params ''precision'' (JInt 2) of
        Inl e \<Rightarrow> (Inl e, p)
      | Inr precision \<Rightarrow>
          if \<not> truthy expression then (Inl (ValueError ''expression parameter is required''), p)
          else
            (case all_allowed expression of
               Inl e \<Rightarrow> (Inl e, p)
             | Inr ok \<Rightarrow>
                 if \<not> ok then (Inl (ValueError ''Expression contains invalid characters''), p)
                 else
                   (case calc_evaluate L expression precision of
                      Inl m \<Rightarrow> (Inl (ValueError (''Invalid expression: '' @ m)), p)
                    | Inr result \<Rightarrow>
                        (Inr (JObj [(''result'', result), (''expression'', expression)]), p)))))"

definition calc_dispatch :: "'fs lib \<Rightarrow> string \<Rightarrow> json \<Rightarrow> 'fs proc \<Rightarrow> (exn + json) \<times> 'fs proc" where
  "calc_dispatch L action params p =
     (if action = ''calculate'' then calc_handle_calculate L params p
      else (Inl (ValueError (''Unknown action: '' @ action)), p))"

definition calc_execute :: "'fs lib \<Rightarrow> string \<Rightarrow> json \<Rightarrow> 'fs proc \<Rightarrow> json \<times> 'fs proc" where
  "calc_execute L action params p = catch_all (calc_dispatch L action params p)"

definition calc_main :: "'fs lib \<Rightarrow> 'fs proc \<Rightarrow> nat \<times> 'fs proc" where
  "calc_main L = plugin_main (read_params L) calc_metadata calc_actions (calc_execute L)"

section \<open>The three plugins side by side\<close>

datatype plugin = File_plugin | Http_plugin | Calculator_plugin

fun metadata_of :: "plugin \<Rightarrow> json" where
  "metadata_of File_plugin = file_metadata"
| "metadata_of Http_plugin = http_metadata"
| "metadata_of Calculator_plugin = calc_metadata"

fun actions_of :: "plugin \<Rightarrow> json" where
  "actions_of File_plugin = file_actions"
| "actions_of Http_plugin = http_actions"
| "actions_of Calculator_plugin = calc_actions"

fun reader_of :: "plugin \<Rightarrow> 'fs lib \<Rightarrow> 'fs proc \<Rightarrow> (exn + json) \<times> 'fs proc" where
  "reader_of File_plugin L = read_params L"
| "reader_of Http_plugin L = http_read_params L"
| "reader_of Calculator_plugin L = read_params L"

fun dispatch_of ::
  "plugin \<Rightarrow> 'fs lib \<Rightarrow> string \<Rightarrow> json \<Rightarrow> 'fs proc \<Rightarrow> (exn + json) \<times> 'fs proc" where
  "dispatch_of File_plugin L = file_dispatch L"
| "dispatch_of Http_plugin L = http_dispatch L"
| "dispatch_of Calculator_plugin L = calc_dispatch L"

fun execute_of :: "plugin \<Rightarrow> 'fs lib \<Rightarrow> string \<Rightarrow> json \<Rightarrow> 'fs proc \<Rightarrow> json \<times> 'fs proc" where
  "execute_of File_plugin L = file_execute L"
| "execute_of Http_plugin L = http_execute L"
| "execute_of Calculator_plugin L = calc_execute L"

fun main_of :: "plugin \<Rightarrow> 'fs lib \<Rightarrow> 'fs proc \<Rightarrow> nat \<times> 'fs proc" where
  "main_of File_plugin L = file_main L"
| "main_of Http_plugin L = http_main L"
| "main_of Calculator_plugin L = calc_main L"

text \<open>The names of a catalog, and the inputs an action declares with \<^verbatim>\<open>"required": True\<close>.\<close>

definition catalog_names :: "json \<Rightarrow> string list" where
  "catalog_names acts = (case acts of JObj kvs \<Rightarrow> map fst kvs | _ \<Rightarrow> [])"

definition is_required :: "json \<Rightarrow> bool" where
  "is_required spec =
     (case spec of JObj kvs \<Rightarrow> map_of kvs ''required'' = Some (JBool True) | _ \<Rightarrow> False)"

definition required_inputs :: "json \<Rightarrow> string \<Rightarrow> string list" where
  "required_inputs acts a =
     (case acts of
        JObj kvs \<Rightarrow>
          (case map_of kvs a of
             Some (JObj spec) \<Rightarrow>
               (case map_of spec ''inputs'' of
                  Some (JObj ins) \<Rightarrow> map fst (filter (\<lambda>(n, s). is_required s) ins)
                | _ \<Rightarrow> [])
           | _ \<Rightarrow> [])
      | _ \<Rightarrow> [])"

section \<open>Regular files\<close>

text \<open>
  What the round trip of the file plugin asks of a path on the disk at hand: there it
  names a regular file, one that reads back as the text written once it was opened for
  writing from that disk, written and closed without error (a device such as
  \<^verbatim>\<open>/dev/null\<close> does not).
\<close>

definition regular_file :: "'fs lib \<Rightarrow> 'fs \<Rightarrow> string \<Rightarrow> bool" where
  "regular_file L d f =
     (\<forall>d1 d2 s. os_open_w L d (Path f) = Inr d1 \<longrightarrow> os_write L d1 (Path f) s = (None, d2)
        \<longrightarrow> os_read L d2 (Path f) = Inr s)"

section \<open>A small library instance\<close>

text \<open>
  An instance of the library for running the model on concrete inputs: a POSIX system
  whose disk is a list of regular files (path and content, the first entry of a path
  counts) beside the device \<^verbatim>\<open>/dev/null\<close>, which takes every write and reads as
  empty; a \<^verbatim>\<open>json.loads\<close> that knows the documents used below, no network, and an
  evaluator that knows \<^verbatim>\<open>2+2\<close>.
\<close>

definition dq :: "string \<Rightarrow> string" where
  "dq s = CHR 0x22 # s @ [CHR 0x22]"

definition doc_path_fd :: string where
  "doc_path_fd = ''{'' @ dq ''path'' @ '': 1, '' @ dq ''content'' @ '': 5}''"

definition doc_path_only :: string where
  "doc_path_only = ''{'' @ dq ''path'' @ '': '' @ dq ''out.txt'' @ ''}''"

definition doc_two_plus_two :: string where
  "doc_two_plus_two = ''{'' @ dq ''expression'' @ '': '' @ dq ''2+2'' @ ''}''"

definition sample_loads :: "string \<Rightarrow> exn + json" where
  "sample_loads s =
     (if s = ''{}'' then Inr (JObj [])
      else if s = doc_path_fd then Inr (JObj [(''path'', JInt 1), (''content'', JInt 5)])
      else if s = doc_path_only then Inr (JObj [(''path'', JStr ''out.txt'')])
      else if s = doc_two_plus_two then Inr (JObj [(''expression'', JStr ''2+2'')])
      else Inl (JSONDecodeError ''Expecting value''))"

definition sample_dirname :: "string \<Rightarrow> string" where
  "sample_dirname s = rev (drop 1 (dropWhile (\<lambda>c. c \<noteq> CHR ''/'') (rev s)))"

definition sample_read :: "(string \<times> string) list \<Rightarrow> target \<Rightarrow> string + string" where
  "sample_read d t =
     (case t of
        Path f \<Rightarrow>
          if f = ''/dev/null'' then Inr []
          else
            (case map_of d f of
               Some s \<Rightarrow> Inr s
             | None \<Rightarrow> Inl (''[Errno 2] No such file or directory: '' @ quoted f))
      | Fd n \<Rightarrow> Inl ''[Errno 9] Bad file descriptor'')"

definition sample_open_w ::
  "(string \<times> string) list \<Rightarrow> target \<Rightarrow> string + (string \<times> string) list" where
  "sample_open_w d t =
     (case t of
        Path f \<Rightarrow> if f = ''/dev/null'' then Inr d else Inr ((f, []) # d)
      | Fd n \<Rightarrow> Inl ''[Errno 9] Bad file descriptor'')"

definition sample_write ::
  "(string \<times> string) list \<Rightarrow> target \<Rightarrow> string \<Rightarrow> string option \<times> (string \<times> string) list" where
  "sample_write d t s =
     (case t of
        Path f \<Rightarrow> if f = ''/dev/null'' then (None, d) else (None, (f, s) # d)
      | Fd n \<Rightarrow> (Some ''[Errno 9] Bad file descriptor'', d))"

definition sample_eval :: "string \<Rightarrow> string + pyval" where
  "sample_eval s = (if s = ''2+2'' then Inr (VInt 4) else Inl ''invalid syntax (<string>, line 1)'')"

definition sample_round :: "pyval \<Rightarrow> json \<Rightarrow> string + json" where
  "sample_round v precision =
     (case (v, precision) of
        (VInt n, JInt k) \<Rightarrow> Inr (JFloat (Finite n 0))
      | _ \<Rightarrow> Inl ''unsupported'')"

definition sample_lib :: "(string \<times> string) list lib" where
  "sample_lib =
     \<lparr>json_loads = sample_loads,
      linesep = [CHR 0x0A],
      path_dirname = sample_dirname,
      os_read = sample_read,
      os_open_w = sample_open_w,
      os_write = sample_write,
      os_makedirs = (\<lambda>d s. (None, d)),
      requests_get = (\<lambda>url hdrs timeout. Inl ''connection refused''),
      requests_post = (\<lambda>url body hdrs timeout. Inl ''connection refused''),
      py_eval = sample_eval,
      round_float = sample_round\<rparr>"

section \<open>Properties of the dispatch protocol\<close>

subsection \<open>Auxiliary facts\<close>

lemma catch_all_Inl: "catch_all (Inl e, p) = (error_obj (str_of e), p)"
  by (simp add: catch_all_def)

lemma catch_all_Inr: "catch_all (Inr v, p) = (v, p)"
  by (simp add: catch_all_def)

lemma execute_catches:
  "dispatch_of pl L action params p = (Inl e, p') \<Longrightarrow>
   execute_of pl L action params p = (error_obj (str_of e), p')"
  by (cases pl) (simp_all add: file_execute_def http_execute_def calc_execute_def catch_all_Inl)

lemma execute_returns:
  "dispatch_of pl L action params p = (Inr v, p') \<Longrightarrow>
   execute_of pl L action params p = (v, p')"
  by (cases pl) (simp_all add: file_execute_def http_execute_def calc_execute_def catch_all_Inr)

lemma main_of_unfold:
  "main_of pl L = plugin_main (reader_of pl L) (metadata_of pl) (actions_of pl) (execute_of pl L)"
  by (cases pl) (simp_all add: file_main_def http_main_def calc_main_def)

lemma catalog_names_simps:
  "catalog_names file_actions = [''read'', ''write'']"
  "catalog_names http_actions = [''get'', ''post'']"
  "catalog_names calc_actions = [''calculate'']"
  by (simp_all add: catalog_names_def file_actions_def http_actions_def calc_actions_def)

lemma dispatch_unknown:
  "action \<notin> set (catalog_names (actions_of pl)) \<Longrightarrow>
   dispatch_of pl L action params p = (Inl (ValueError (''Unknown action: '' @ action)), p)"
  by (cases pl)
     (auto simp: catalog_names_simps file_dispatch_def http_dispatch_def calc_dispatch_def)

lemma plugin_main_execute:
  assumes "1 < length (argv p)" and "argv p ! 1 \<noteq> ''metadata''" and "argv p ! 1 \<noteq> ''actions''"
    and "reader p = (Inr params, p1)" and "execute (argv p ! 1) params p1 = (r, p2)"
  shows "plugin_main reader m acts execute p = py_exit 0 (py_print r p2)"
  using assms by (simp add: plugin_main_def Let_def)

lemma py_exit_print:
  "pending p = [] \<Longrightarrow> fd1_open p \<Longrightarrow>
   py_exit c (py_print r p) = (c, p\<lparr>stdout := stdout p @ [Doc r], pending := []\<rparr>)"
  by (simp add: py_exit_def py_print_def)

lemma py_exit_print_closed:
  "pending p = [] \<Longrightarrow> \<not> fd1_open p \<Longrightarrow>
   py_exit c (py_print r p) = (120, p)"
  by (simp add: py_exit_def py_print_def)


lemma read_params_keeps:
  "read_params L p = (r, p') \<Longrightarrow>
   argv p' = argv p \<and> stdout p' = stdout p \<and> pending p' = pending p \<and>
   fd1_open p' = fd1_open p \<and> disk p' = disk p"
  by (auto simp: read_params_def except_JSONDecodeError_def stdin_read_def Let_def
           split: if_splits sum.splits)

lemma http_read_params_keeps:
  "http_read_params L p = (r, p') \<Longrightarrow>
   argv p' = argv p \<and> stdout p' = stdout p \<and> pending p' = pending p \<and>
   fd1_open p' = fd1_open p \<and> disk p' = disk p"
  by (auto simp: http_read_params_def except_JSONDecodeError_def stdin_read_def stdin_seek0_def
                 Let_def
           split: if_splits sum.splits)

lemma reader_keeps:
  "reader_of pl L p = (r, p') \<Longrightarrow>
   argv p' = argv p \<and> stdout p' = stdout p \<and> pending p' = pending p \<and>
   fd1_open p' = fd1_open p \<and> disk p' = disk p"
  by (cases pl) (simp_all add: read_params_keeps http_read_params_keeps)

subsection \<open>Unknown actions\<close>

text \<open>
  What holds of an action name that is neither \<^verbatim>\<open>metadata\<close> nor \<^verbatim>\<open>actions\<close> nor a name
  of the plugin's catalog: \<^verbatim>\<open>execute\<close> returns exactly
  \<^verbatim>\<open>{"error": "Unknown action: <name>"}\<close> for every params value and leaves the process
  state as it was; and a process started with that action writes exactly this document
  and exits with status 0 once its reader has produced the params.
\<close>

lemma unknown_action_reported:
  assumes "action \<noteq> ''metadata''" and "action \<noteq> ''actions''"
    and "action \<notin> set (catalog_names (actions_of pl))"
  shows "execute_of pl L action params p = (error_obj (''Unknown action: '' @ action), p) \<and>
         (reader_of pl L (start (prog # action # rest) input seekable d) = (Inr params, p1) \<longrightarrow>
          main_of pl L (start (prog # action # rest) input seekable d) =
            (0, p1\<lparr>stdout := [Doc (error_obj (''Unknown action: '' @ action))]\<rparr>))"
proof -
  have ex: "\<And>q. execute_of pl L action params q = (error_obj (''Unknown action: '' @ action), q)"
    using execute_catches [OF dispatch_unknown [OF assms(3)]] by simp
  have "main_of pl L (start (prog # action # rest) input seekable d) =
          (0, p1\<lparr>stdout := [Doc (error_obj (''Unknown action: '' @ action))]\<rparr>)"
    if rd: "reader_of pl L (start (prog # action # rest) input seekable d) = (Inr params, p1)"
  proof -
    let ?p0 = "start (prog # action # rest) input seekable d"
    from reader_keeps [OF rd]
    have keep: "stdout p1 = []" "pending p1 = []" "fd1_open p1"
      by (simp_all add: start_def)
    have "main_of pl L ?p0 = py_exit 0 (py_print (error_obj (''Unknown action: '' @ action)) p1)"
      unfolding main_of_unfold
      by (rule plugin_main_execute [where params = params and ?p1.0 = p1])
         (simp_all add: start_def assms ex rd [unfolded start_def])
    also have "\<dots> = (0, p1\<lparr>stdout := stdout p1 @ [Doc (error_obj (''Unknown action: '' @ action))],
                              pending := []\<rparr>)"
      by (rule py_exit_print) (simp_all add: keep)
    also have "\<dots> = (0, p1\<lparr>stdout := [Doc (error_obj (''Unknown action: '' @ action))]\<rparr>)"
      using keep by simp
    finally show ?thesis .
  qed
  with ex show ?thesis by blast
qed

lemmas sample_simps =
  sample_lib_def sample_loads_def sample_read_def sample_open_w_def sample_write_def
  sample_eval_def sample_round_def sample_dirname_def doc_path_fd_def doc_path_only_def
  doc_two_plus_two_def dq_def

subsection \<open>The catch-all boundary of \<^verbatim>\<open>execute\<close>\<close>

text \<open>
  The handlers leave the output buffer alone; those of the HTTP and the calculator
  plugin leave the whole process state alone.
\<close>

lemma with_open_read_keeps:
  "with_open_read L path p = (r, p') \<Longrightarrow> pending p' = pending p \<and> stdout p' = stdout p"
  by (auto simp: with_open_read_def Let_def split: sum.splits if_splits)

lemma with_open_write_keeps:
  "with_open_write L path content p = (r, p') \<Longrightarrow> pending p' = pending p"
  by (auto simp: with_open_write_def split: sum.splits if_splits json.splits prod.splits
        option.splits)

lemma make_parent_dirs_keeps:
  "make_parent_dirs L path p = (r, p') \<Longrightarrow> pending p' = pending p"
  by (auto simp: make_parent_dirs_def split: json.splits prod.splits option.splits)

lemma file_handle_read_keeps:
  "file_handle_read L params p = (r, p') \<Longrightarrow> pending p' = pending p"
  by (auto simp: file_handle_read_def split: sum.splits if_splits prod.splits)
     (metis with_open_read_keeps)+

lemma file_handle_write_keeps:
  "file_handle_write L params p = (r, p') \<Longrightarrow> pending p' = pending p"
  by (auto simp: file_handle_write_def split: sum.splits if_splits prod.splits)
     (metis with_open_write_keeps make_parent_dirs_keeps)+

lemma http_dispatch_state: "snd (http_dispatch L action params p) = p"
  by (simp add: http_dispatch_def http_handle_get_def http_handle_post_def split: sum.splits)

lemma calc_dispatch_state: "snd (calc_dispatch L action params p) = p"
  by (simp add: calc_dispatch_def calc_handle_calculate_def split: sum.splits)

lemma dispatch_keeps_pending:
  assumes "dispatch_of pl L action params p = (r, p')"
  shows "pending p' = pending p"
proof (cases pl)
  case File_plugin
  with assms show ?thesis
    by (auto simp: file_dispatch_def split: if_splits)
       (metis file_handle_read_keeps file_handle_write_keeps)+
next
  case Http_plugin
  with assms http_dispatch_state [of L action params p] show ?thesis by simp
next
  case Calculator_plugin
  with assms calc_dispatch_state [of L action params p] show ?thesis by simp
qed

text \<open>
  What does hold of a raising handler: \<^verbatim>\<open>execute\<close> returns the error object
  (\<open>execute_catches\<close>), and the process prints it and exits with status 0 as long as
  descriptor 1 is still open when the handler is left. That is always so in the HTTP
  and the calculator plugin.
\<close>

lemma handler_failure_reported:
  assumes rd: "reader_of pl L (start (prog # action # rest) input seekable d) = (Inr params, p1)"
    and "action \<noteq> ''metadata''" and "action \<noteq> ''actions''"
    and raised: "dispatch_of pl L action params p1 = (Inl e, p2)"
    and "fd1_open p2"
  shows "main_of pl L (start (prog # action # rest) input seekable d) =
           (0, p2\<lparr>stdout := stdout p2 @ [Doc (error_obj (str_of e))]\<rparr>)"
proof -
  from reader_keeps [OF rd] have "pending p1 = []"
    by (simp add: start_def)
  with dispatch_keeps_pending [OF raised] have pend: "pending p2 = []"
    by simp
  have "main_of pl L (start (prog # action # rest) input seekable d) =
          py_exit 0 (py_print (error_obj (str_of e)) p2)"
    unfolding main_of_unfold
    by (rule plugin_main_execute [where params = params and ?p1.0 = p1])
       (simp_all add: start_def assms(2,3) rd [unfolded start_def] execute_catches [OF raised])
  also have "\<dots> = (0, p2\<lparr>stdout := stdout p2 @ [Doc (error_obj (str_of e))], pending := []\<rparr>)"
    by (rule py_exit_print) (simp_all add: pend assms(5))
  also have "\<dots> = (0, p2\<lparr>stdout := stdout p2 @ [Doc (error_obj (str_of e))]\<rparr>)"
    using pend by simp
  finally show ?thesis .
qed

lemma handler_failure_reported_http_calc:
  assumes "pl = Http_plugin \<or> pl = Calculator_plugin"
    and rd: "reader_of pl L (start (prog # action # rest) input seekable d) = (Inr params, p1)"
    and "action \<noteq> ''metadata''" and "action \<noteq> ''actions''"
    and raised: "fst (dispatch_of pl L action params p1) = Inl e"
  shows "main_of pl L (start (prog # action # rest) input seekable d) =
           (0, p1\<lparr>stdout := [Doc (error_obj (str_of e))]\<rparr>)"
proof -
  have "snd (dispatch_of pl L action params p1) = p1"
    using assms(1) by (auto simp: http_dispatch_state calc_dispatch_state)
  with raised have r: "dispatch_of pl L action params p1 = (Inl e, p1)"
    by (simp add: prod_eq_iff)
  from reader_keeps [OF rd] have k: "fd1_open p1" "stdout p1 = []"
    by (simp_all add: start_def)
  from handler_failure_reported [OF rd assms(3,4) r k(1)] k(2) show ?thesis
    by simp
qed

text \<open>
  Claim C1 says that whenever the invoked handler raises, \<^verbatim>\<open>execute\<close> returns
  \<^verbatim>\<open>{"error": m}\<close> with \<open>m\<close> the message of the exception, and the process still writes
  a normal response and exits with status 0. The file plugin run as
  \<^verbatim>\<open>file-plugin.py write\<close> on the input \<^verbatim>\<open>{"path": 1, "content": 5}\<close> does not:
  \<^verbatim>\<open>open(1, 'w')\<close> wraps descriptor 1, \<^verbatim>\<open>f.write(5)\<close> raises \<^verbatim>\<open>TypeError\<close>, leaving the
  \<^verbatim>\<open>with\<close> block closes descriptor 1, \<^verbatim>\<open>execute\<close> returns the error object, and the
  line that \<^verbatim>\<open>print\<close> has buffered cannot be flushed at exit: nothing reaches standard
  output and the exit status is 120.
\<close>

theorem handler_failure_loses_response:
  "file_dispatch sample_lib ''write'' (JObj [(''path'', JInt 1), (''content'', JInt 5)])
     ((start [''file-plugin.py'', ''write''] doc_path_fd False [])\<lparr>stdin_pos := 25\<rparr>) =
     (Inl (TypeError ''write() argument must be str, not int''),
      (start [''file-plugin.py'', ''write''] doc_path_fd False [])
        \<lparr>stdin_pos := 25, fd1_open := False\<rparr>) \<and>
   file_execute sample_lib ''write'' (JObj [(''path'', JInt 1), (''content'', JInt 5)])
     ((start [''file-plugin.py'', ''write''] doc_path_fd False [])\<lparr>stdin_pos := 25\<rparr>) =
     (JObj [(''error'', JStr ''write() argument must be str, not int'')],
      (start [''file-plugin.py'', ''write''] doc_path_fd False [])
        \<lparr>stdin_pos := 25, fd1_open := False\<rparr>) \<and>
   file_main sample_lib (start [''file-plugin.py'', ''write''] doc_path_fd False []) =
     (120, (start [''file-plugin.py'', ''write''] doc_path_fd False [])
             \<lparr>stdin_pos := 25, fd1_open := False\<rparr>) \<and>
   stdout (start [''file-plugin.py'', ''write''] doc_path_fd False []
             :: (string \<times> string) list proc) = []"
  by (simp add: file_main_def plugin_main_def read_params_def except_JSONDecodeError_def
        stdin_read_def strip_def is_space_def file_execute_def file_dispatch_def catch_all_def
        file_handle_write_def dict_get_def with_open_write_def write_type_error_def
        py_exit_def py_print_def error_obj_def start_def sample_simps)

subsection \<open>One response for every invocation\<close>

text \<open>
  The reader of the HTTP plugin on empty input from a pipe: the first
  \<^verbatim>\<open>sys.stdin.read()\<close> returns the empty string, \<^verbatim>\<open>params\<close> becomes \<^verbatim>\<open>{}\<close>, and
  \<^verbatim>\<open>sys.stdin.seek(0)\<close> raises \<^verbatim>\<open>io.UnsupportedOperation\<close>, which the handler for
  \<^verbatim>\<open>json.JSONDecodeError\<close> does not catch. No library call is involved.
\<close>

lemma http_reader_empty_pipe:
  "http_read_params L (start args [] False d) =
     (Inl (UnsupportedOperation ''underlying stream is not seekable''), start args [] False d)"
  by (simp add: http_read_params_def except_JSONDecodeError_def stdin_read_def stdin_seek0_def
        start_def)

lemma http_main_empty_pipe:
  "http_main L (start [prog, action] [] False d) = (1, start [prog, action] [] False d)"
proof -
  have "plugin_main (http_read_params L) http_metadata http_actions (http_execute L)
          (start [prog, action] [] False d) = py_exit 1 (start [prog, action] [] False d)"
    by (simp add: plugin_main_def http_reader_empty_pipe) (simp add: start_def)
  then show ?thesis
    by (simp add: http_main_def py_exit_def start_def)
qed

text \<open>
  Claim C2 says that every invocation with an action argument writes exactly one JSON
  document to standard output, whatever standard input holds, empty input and pipes
  included. The HTTP plugin started with any action on empty input from a pipe writes
  nothing and exits with status 1.
\<close>

theorem http_no_response_on_empty_pipe:
  "fst (http_main L (start [prog, action] [] False d)) = 1 \<and>
   stdout (snd (http_main L (start [prog, action] [] False d))) = []"
  by (simp add: http_main_empty_pipe) (simp add: start_def)

text \<open>
  Claim C4 says that for an action name that is neither reserved nor in the catalog,
  \<^verbatim>\<open>execute\<close> returns exactly \<^verbatim>\<open>{"error": "Unknown action: <name>"}\<close> and the process
  exits with status 0. The first half holds: in each of the three plugins
  \<^verbatim>\<open>execute("frobnicate", params)\<close> returns that object for every params value and
  leaves the process state as it was. The second does not: the HTTP plugin started as
  \<^verbatim>\<open>http-plugin.py frobnicate\<close> on empty input from a pipe never reaches \<^verbatim>\<open>execute\<close>,
  writes nothing and exits with status 1.
\<close>

theorem unknown_action_exit_status_1_on_empty_pipe:
  "execute_of pl L ''frobnicate'' params p = (error_obj ''Unknown action: frobnicate'', p) \<and>
   fst (main_of Http_plugin L (start [prog, ''frobnicate''] [] False d)) = 1 \<and>
   stdout (snd (main_of Http_plugin L (start [prog, ''frobnicate''] [] False d))) = []"
proof -
  have "''frobnicate'' \<notin> set (catalog_names (actions_of pl))"
    by (cases pl) (simp_all add: catalog_names_simps)
  then have "execute_of pl L ''frobnicate'' params p =
               (error_obj (''Unknown action: '' @ ''frobnicate''), p)"
    using unknown_action_reported [of "''frobnicate''" pl L params p] by simp
  then show ?thesis
    by (simp add: http_main_empty_pipe) (simp add: start_def)
qed

subsection \<open>The exit status\<close>

lemma no_action_argument:
  "main_of pl L (start [prog] input seekable d) =
     (1, (start [prog] input seekable d)
           \<lparr>stdout := [Doc (JObj [(''error'', JStr ''action required as first argument'')])]\<rparr>)"
  unfolding main_of_unfold
  by (simp add: plugin_main_def py_exit_def py_print_def error_obj_def start_def)

text \<open>
  Claim C3 says that a process started without an action argument writes
  \<^verbatim>\<open>{"error": "action required as first argument"}\<close> and exits with status 1, and that
  this is the only way to a non-zero exit status. The first half holds for the three
  plugins; the HTTP plugin started as \<^verbatim>\<open>http-plugin.py get\<close> on empty input from a
  pipe has an action argument and exits with status 1 all the same.
\<close>

theorem http_exit_status_1_with_action:
  "fst (main_of pl L (start [prog] input seekable d)) = 1 \<and>
   stdout (snd (main_of pl L (start [prog] input seekable d))) =
     [Doc (JObj [(''error'', JStr ''action required as first argument'')])] \<and>
   length (argv (start [prog, ''get''] [] False d)) = 2 \<and>
   fst (main_of Http_plugin L (start [prog, ''get''] [] False d)) = 1"
  by (simp add: no_action_argument http_main_empty_pipe) (simp add: start_def)

subsection \<open>The request reader\<close>

text \<open>
  The reader of the file and the calculator plugin yields \<^verbatim>\<open>{}\<close> on blank input and
  on input that \<^verbatim>\<open>json.loads\<close> rejects with \<^verbatim>\<open>JSONDecodeError\<close>. The reader of the HTTP
  plugin yields \<^verbatim>\<open>{}\<close> on every non-empty input, valid JSON included, since the text
  handed to \<^verbatim>\<open>json.loads\<close> is what a second \<^verbatim>\<open>read()\<close> returns.
\<close>

lemma read_params_blank:
  "strip input = [] \<Longrightarrow>
   read_params L (start args input seekable d) =
     (Inr (JObj []), (start args input seekable d)\<lparr>stdin_pos := length input\<rparr>)"
  by (simp add: read_params_def except_JSONDecodeError_def stdin_read_def start_def)

lemma read_params_invalid:
  "strip input \<noteq> [] \<Longrightarrow> json_loads L (strip input) = Inl (JSONDecodeError m) \<Longrightarrow>
   read_params L (start args input seekable d) =
     (Inr (JObj []), (start args input seekable d)\<lparr>stdin_pos := length input\<rparr>)"
  by (simp add: read_params_def except_JSONDecodeError_def stdin_read_def start_def)

lemma http_read_params_nonempty:
  "input \<noteq> [] \<Longrightarrow> json_loads L [] = Inl (JSONDecodeError m) \<Longrightarrow>
   http_read_params L (start args input seekable d) =
     (Inr (JObj []), (start args input seekable d)\<lparr>stdin_pos := length input\<rparr>)"
  by (simp add: http_read_params_def except_JSONDecodeError_def stdin_read_def start_def)

text \<open>
  Claim C5 says that in every plugin the reader yields \<^verbatim>\<open>{}\<close> when standard input
  is empty after trimming and when it is not valid JSON. On empty input from a pipe the
  reader of the HTTP plugin raises instead, where the readers of the other two plugins
  yield \<^verbatim>\<open>{}\<close>.
\<close>

theorem http_reader_raises_on_empty_pipe:
  "fst (reader_of Http_plugin L (start args [] False d)) =
     Inl (UnsupportedOperation ''underlying stream is not seekable'') \<and>
   fst (reader_of File_plugin L (start args [] False d)) = Inr (JObj []) \<and>
   fst (reader_of Calculator_plugin L (start args [] False d)) = Inr (JObj [])"
  by (simp add: http_reader_empty_pipe read_params_blank strip_def)

subsection \<open>Required parameters\<close>

lemma required_inputs_file:
  "required_inputs file_actions a =
     (if a = ''read'' then [''path''] else if a = ''write'' then [''path'', ''content''] else [])"
  by (simp add: required_inputs_def is_required_def file_actions_def)

lemma required_inputs_http:
  "required_inputs http_actions a =
     (if a = ''get'' then [''url''] else if a = ''post'' then [''url''] else [])"
  by (simp add: required_inputs_def is_required_def http_actions_def)

lemma required_inputs_calc:
  "required_inputs calc_actions a = (if a = ''calculate'' then [''expression''] else [])"
  by (simp add: required_inputs_def is_required_def calc_actions_def)

lemma missing_path:
  "map_of kvs ''path'' = None \<Longrightarrow> a = ''read'' \<or> a = ''write'' \<Longrightarrow>
   file_execute L a (JObj kvs) p = (error_obj ''path parameter is required'', p)"
  by (auto simp: file_execute_def file_dispatch_def file_handle_read_def file_handle_write_def
        dict_get_def catch_all_def)

lemma missing_url:
  "map_of kvs ''url'' = None \<Longrightarrow> a = ''get'' \<or> a = ''post'' \<Longrightarrow>
   http_execute L a (JObj kvs) p = (error_obj ''url parameter is required'', p)"
  by (auto simp: http_execute_def http_dispatch_def http_handle_get_def http_handle_post_def
        dict_get_def catch_all_def)

lemma missing_expression:
  "map_of kvs ''expression'' = None \<Longrightarrow>
   calc_execute L ''calculate'' (JObj kvs) p = (error_obj ''expression parameter is required'', p)"
  by (simp add: calc_execute_def calc_dispatch_def calc_handle_calculate_def
        dict_get_def catch_all_def)

text \<open>
  Every input that a catalog declares required is checked by its handler, but for
  \<^verbatim>\<open>content\<close> of the \<^verbatim>\<open>write\<close> action of the file plugin.
\<close>

lemma required_parameter_missing:
  assumes req: "n \<in> set (required_inputs (actions_of pl) a)"
    and other: "\<not> (pl = File_plugin \<and> a = ''write'' \<and> n = ''content'')"
    and absent: "map_of kvs n = None"
  shows "execute_of pl L a (JObj kvs) p = (error_obj (n @ '' parameter is required''), p)"
proof (cases pl)
  case File_plugin
  with req have "a = ''read'' \<and> n = ''path'' \<or> a = ''write'' \<and> (n = ''path'' \<or> n = ''content'')"
    by (simp add: required_inputs_file split: if_splits)
  with other File_plugin have "(a = ''read'' \<or> a = ''write'') \<and> n = ''path''"
    by blast
  with absent File_plugin show ?thesis
    using missing_path [of kvs a L p] by simp
next
  case Http_plugin
  with req have "(a = ''get'' \<or> a = ''post'') \<and> n = ''url''"
    by (simp add: required_inputs_http split: if_splits)
  with absent Http_plugin show ?thesis
    using missing_url [of kvs a L p] by simp
next
  case Calculator_plugin
  with req have "a = ''calculate'' \<and> n = ''expression''"
    by (simp add: required_inputs_calc split: if_splits)
  with absent Calculator_plugin show ?thesis
    using missing_expression [of kvs L p] by simp
qed

text \<open>
  Claim C6 says that invoking an action without one of the inputs its catalog entry
  declares with \<^verbatim>\<open>"required": True\<close> returns an \<^verbatim>\<open>error\<close> that names the input. The
  catalog of the file plugin declares \<^verbatim>\<open>content\<close> of \<^verbatim>\<open>write\<close> required, and
  \<^verbatim>\<open>_handle_write\<close> reads it as \<^verbatim>\<open>params.get("content", "")\<close>: run as
  \<^verbatim>\<open>file-plugin.py write\<close> on the input \<^verbatim>\<open>{"path": "out.txt"}\<close> the plugin writes an
  empty file and answers \<^verbatim>\<open>{"success": true}\<close>.
\<close>

theorem write_without_content_succeeds:
  "''content'' \<in> set (required_inputs (actions_of File_plugin) ''write'') \<and>
   file_execute sample_lib ''write'' (JObj [(''path'', JStr ''out.txt'')])
     (start [''file-plugin.py'', ''write''] doc_path_only False []) =
     (JObj [(''success'', JBool True)],
      (start [''file-plugin.py'', ''write''] doc_path_only False [])
        \<lparr>disk := [(''out.txt'', []), (''out.txt'', [])]\<rparr>) \<and>
   file_main sample_lib (start [''file-plugin.py'', ''write''] doc_path_only False []) =
     (0, (start [''file-plugin.py'', ''write''] doc_path_only False [])
           \<lparr>stdin_pos := 19, stdout := [Doc (JObj [(''success'', JBool True)])],
            disk := [(''out.txt'', []), (''out.txt'', [])]\<rparr>)"
  by (simp add: file_main_def plugin_main_def read_params_def except_JSONDecodeError_def
        stdin_read_def strip_def is_space_def file_execute_def file_dispatch_def catch_all_def
        file_handle_write_def dict_get_def with_open_write_def py_exit_def py_print_def
        start_def sample_simps required_inputs_def is_required_def file_actions_def
        write_newlines_def)

subsection \<open>Introspection\<close>

text \<open>
  Once the reader has returned, \<^verbatim>\<open>metadata\<close> and \<^verbatim>\<open>actions\<close> print the plugin's
  metadata and catalog as they are, whatever the params.
\<close>

lemma introspection:
  assumes "reader_of pl L (start (prog # action # rest) input seekable d) = (Inr params, p1)"
  shows "action = ''metadata'' \<Longrightarrow>
         main_of pl L (start (prog # action # rest) input seekable d) =
           (0, p1\<lparr>stdout := [Doc (metadata_of pl)]\<rparr>)"
    and "action = ''actions'' \<Longrightarrow>
         main_of pl L (start (prog # action # rest) input seekable d) =
           (0, p1\<lparr>stdout := [Doc (actions_of pl)]\<rparr>)"
proof -
  from reader_keeps [OF assms]
  have keep: "stdout p1 = []" "pending p1 = []" "fd1_open p1"
    by (simp_all add: start_def)
  show "action = ''metadata'' \<Longrightarrow>
         main_of pl L (start (prog # action # rest) input seekable d) =
           (0, p1\<lparr>stdout := [Doc (metadata_of pl)]\<rparr>)"
    unfolding main_of_unfold using keep assms [unfolded start_def]
    by (simp add: plugin_main_def start_def py_exit_def py_print_def)
  show "action = ''actions'' \<Longrightarrow>
         main_of pl L (start (prog # action # rest) input seekable d) =
           (0, p1\<lparr>stdout := [Doc (actions_of pl)]\<rparr>)"
    unfolding main_of_unfold using keep assms [unfolded start_def]
    by (simp add: plugin_main_def start_def py_exit_def py_print_def)
qed

text \<open>
  Claim C7 says that in every plugin \<^verbatim>\<open>metadata\<close> and \<^verbatim>\<open>actions\<close> return the
  metadata and the catalog with exit status 0 whatever standard input holds, empty
  input included. \<^verbatim>\<open>main\<close> reads the params before it looks at the action, and the
  HTTP plugin started with \<^verbatim>\<open>metadata\<close> or \<^verbatim>\<open>actions\<close> on empty input from a pipe
  exits with status 1 and has written nothing.
\<close>

theorem http_introspection_fails_on_empty_pipe:
  "main_of Http_plugin L (start [prog, ''metadata''] [] False d) =
     (1, start [prog, ''metadata''] [] False d) \<and>
   main_of Http_plugin L (start [prog, ''actions''] [] False d) =
     (1, start [prog, ''actions''] [] False d) \<and>
   stdout (start [prog, ''metadata''] [] False d) = [] \<and>
   stdout (start [prog, ''actions''] [] False d) = []"
  by (simp add: http_main_empty_pipe) (simp add: start_def)

subsection \<open>Writing a file and reading it back\<close>

lemma universal_newlines_Cons:
  "c \<noteq> CHR 0x0D \<Longrightarrow> universal_newlines (c # s) = c # universal_newlines s"
  by (cases s) simp_all

lemma universal_newlines_id:
  "CHR 0x0D \<notin> set s \<Longrightarrow> universal_newlines s = s"
  by (induction s) (auto simp: universal_newlines_Cons)

lemma write_newlines_posix: "write_newlines [CHR 0x0A] s = s"
  by (induction s) (simp_all add: write_newlines_def)

lemma universal_newlines_crlf:
  "CHR 0x0D \<notin> set s \<Longrightarrow> universal_newlines (write_newlines [CHR 0x0D, CHR 0x0A] s) = s"
proof (induction s)
  case Nil
  then show ?case by (simp add: write_newlines_def)
next
  case (Cons c s)
  then have "c \<noteq> CHR 0x0D" and ih: "universal_newlines (write_newlines [CHR 0x0D, CHR 0x0A] s) = s"
    by auto
  show ?case
  proof (cases "c = CHR 0x0A")
    case True
    then have "write_newlines [CHR 0x0D, CHR 0x0A] (c # s) =
                 CHR 0x0D # CHR 0x0A # write_newlines [CHR 0x0D, CHR 0x0A] s"
      by (simp add: write_newlines_def)
    then show ?thesis using ih True by simp
  next
    case False
    then have "write_newlines [CHR 0x0D, CHR 0x0A] (c # s) =
                 c # write_newlines [CHR 0x0D, CHR 0x0A] s"
      by (simp add: write_newlines_def)
    then show ?thesis using ih \<open>c \<noteq> CHR 0x0D\<close> by (simp add: universal_newlines_Cons)
  qed
qed

lemma text_round_trip:
  assumes "sep = [CHR 0x0A] \<or> sep = [CHR 0x0D, CHR 0x0A]" and "CHR 0x0D \<notin> set s"
  shows "universal_newlines (write_newlines sep s) = s"
  using assms by (auto simp: write_newlines_posix universal_newlines_id universal_newlines_crlf)

lemma write_success:
  assumes "file_execute L ''write'' (JObj [(''path'', JStr P), (''content'', JStr V)]) p =
             (JObj [(''success'', JBool True)], p')"
    and "P \<noteq> []"
  shows "\<exists>d1. os_open_w L (disk p) (Path P) = Inr d1 \<and>
              os_write L d1 (Path P) (write_newlines (linesep L) V) = (None, disk p')"
  using assms
  by (auto simp: file_execute_def file_dispatch_def file_handle_write_def dict_get_def
        with_open_write_def catch_all_def error_obj_def
      split: sum.splits prod.splits option.splits)

lemma read_back:
  assumes "os_read L (disk q) (Path P) = Inr raw" and "P \<noteq> []"
  shows "file_execute L ''read'' (JObj [(''path'', JStr P)]) q =
           (JObj [(''content'', JStr (universal_newlines raw))], q)"
  using assms
  by (simp add: file_execute_def file_dispatch_def file_handle_read_def dict_get_def
        with_open_read_def catch_all_def)

text \<open>
  Claim C8, as amended. Where the line separator is \<^verbatim>\<open>\n\<close> or \<^verbatim>\<open>\r\n\<close>, for every
  non-empty path \<open>P\<close> that names a regular file on the disk the write starts from, and
  every string \<open>V\<close> without a carriage return: if \<^verbatim>\<open>write\<close> with
  \<^verbatim>\<open>{path: P, content: V}\<close> returns \<^verbatim>\<open>{"success": true}\<close>, then \<^verbatim>\<open>read\<close> with
  \<^verbatim>\<open>{path: P}\<close>, in a process that finds the disk as the first one left it, returns
  \<^verbatim>\<open>{"content": V}\<close>.
\<close>

theorem write_then_read:
  assumes "regular_file L (disk p) P"
    and "linesep L = [CHR 0x0A] \<or> linesep L = [CHR 0x0D, CHR 0x0A]"
    and "P \<noteq> []" and "CHR 0x0D \<notin> set V"
    and "file_execute L ''write'' (JObj [(''path'', JStr P), (''content'', JStr V)]) p =
           (JObj [(''success'', JBool True)], p')"
    and "disk q = disk p'"
  shows "file_execute L ''read'' (JObj [(''path'', JStr P)]) q = (JObj [(''content'', JStr V)], q)"
proof -
  from write_success [OF assms(5) assms(3)] obtain d1 where
    "os_open_w L (disk p) (Path P) = Inr d1"
    "os_write L d1 (Path P) (write_newlines (linesep L) V) = (None, disk p')"
    by blast
  with assms(1) have "os_read L (disk p') (Path P) = Inr (write_newlines (linesep L) V)"
    unfolding regular_file_def by blast
  then have "os_read L (disk q) (Path P) = Inr (write_newlines (linesep L) V)"
    using assms(6) by simp
  from read_back [OF this assms(3)] text_round_trip [OF assms(2) assms(4)]
  show ?thesis by simp
qed

text \<open>
  The sample library, whose disk holds a device beside its regular files, at the path
  \<^verbatim>\<open>notes.txt\<close> and the content \<^verbatim>\<open>hi\n\<close>.
\<close>

theorem write_then_read_witness:
  "file_execute sample_lib ''write''
     (JObj [(''path'', JStr ''notes.txt''), (''content'', JStr [CHR ''h'', CHR ''i'', CHR 0x0A])])
     (start [''file-plugin.py'', ''write''] [] False []) =
     (JObj [(''success'', JBool True)],
      (start [''file-plugin.py'', ''write''] [] False [])
        \<lparr>disk := [(''notes.txt'', [CHR ''h'', CHR ''i'', CHR 0x0A]), (''notes.txt'', [])]\<rparr>) \<and>
   file_execute sample_lib ''read'' (JObj [(''path'', JStr ''notes.txt'')])
     (start [''file-plugin.py'', ''read''] [] False
        [(''notes.txt'', [CHR ''h'', CHR ''i'', CHR 0x0A]), (''notes.txt'', [])]) =
     (JObj [(''content'', JStr [CHR ''h'', CHR ''i'', CHR 0x0A])],
      start [''file-plugin.py'', ''read''] [] False
        [(''notes.txt'', [CHR ''h'', CHR ''i'', CHR 0x0A]), (''notes.txt'', [])])"
proof -
  have w: "file_execute sample_lib ''write''
     (JObj [(''path'', JStr ''notes.txt''), (''content'', JStr [CHR ''h'', CHR ''i'', CHR 0x0A])])
     (start [''file-plugin.py'', ''write''] [] False []) =
     (JObj [(''success'', JBool True)],
      (start [''file-plugin.py'', ''write''] [] False [])
        \<lparr>disk := [(''notes.txt'', [CHR ''h'', CHR ''i'', CHR 0x0A]), (''notes.txt'', [])]\<rparr>)"
    by (simp add: file_execute_def file_dispatch_def file_handle_write_def dict_get_def
        with_open_write_def catch_all_def write_newlines_def start_def sample_simps)
  have r: "regular_file sample_lib (disk (start [''file-plugin.py'', ''write''] [] False []))
             ''notes.txt''"
    by (auto simp: regular_file_def sample_simps)
  have l: "linesep sample_lib = [CHR 0x0A] \<or> linesep sample_lib = [CHR 0x0D, CHR 0x0A]"
    by (simp add: sample_lib_def)
  have n: "''notes.txt'' \<noteq> []" and v: "CHR 0x0D \<notin> set [CHR ''h'', CHR ''i'', CHR 0x0A]"
    by simp_all
  have d: "disk (start [''file-plugin.py'', ''read''] [] False
        [(''notes.txt'', [CHR ''h'', CHR ''i'', CHR 0x0A]), (''notes.txt'', [])]) =
      disk ((start [''file-plugin.py'', ''write''] [] False [])
        \<lparr>disk := [(''notes.txt'', [CHR ''h'', CHR ''i'', CHR 0x0A]), (''notes.txt'', [])]\<rparr>)"
    by (simp add: start_def)
  from write_then_read [OF r l n v w d] w show ?thesis by simp
qed

text \<open>
  Claim C8 as it is stated fails in two ways, and each restriction of the amended
  claim answers one of them. A content with a carriage return: \<^verbatim>\<open>write\<close> stores
  \<^verbatim>\<open>a\rb\<close> at \<^verbatim>\<open>notes.txt\<close> and succeeds, and \<^verbatim>\<open>read\<close> returns \<^verbatim>\<open>a\nb\<close>. A path that
  does not name a regular file: \<^verbatim>\<open>write\<close> of \<^verbatim>\<open>hi\<close> to \<^verbatim>\<open>/dev/null\<close> succeeds, and
  \<^verbatim>\<open>read\<close> returns the empty string.
\<close>

theorem write_not_read_back:
  "fst (file_execute sample_lib ''write''
          (JObj [(''path'', JStr ''notes.txt''),
                 (''content'', JStr [CHR ''a'', CHR 0x0D, CHR ''b''])])
          (start [''file-plugin.py'', ''write''] [] False [])) = JObj [(''success'', JBool True)] \<and>
   fst (file_execute sample_lib ''read'' (JObj [(''path'', JStr ''notes.txt'')])
          (start [''file-plugin.py'', ''read''] [] False
             (disk (snd (file_execute sample_lib ''write''
                (JObj [(''path'', JStr ''notes.txt''),
                       (''content'', JStr [CHR ''a'', CHR 0x0D, CHR ''b''])])
                (start [''file-plugin.py'', ''write''] [] False []))))))
     \<noteq> JObj [(''content'', JStr [CHR ''a'', CHR 0x0D, CHR ''b''])] \<and>
   fst (file_execute sample_lib ''read'' (JObj [(''path'', JStr ''notes.txt'')])
          (start [''file-plugin.py'', ''read''] [] False
             (disk (snd (file_execute sample_lib ''write''
                (JObj [(''path'', JStr ''notes.txt''),
                       (''content'', JStr [CHR ''a'', CHR 0x0D, CHR ''b''])])
                (start [''file-plugin.py'', ''write''] [] False []))))))
     = JObj [(''content'', JStr [CHR ''a'', CHR 0x0A, CHR ''b''])] \<and>
   fst (file_execute sample_lib ''write''
          (JObj [(''path'', JStr ''/dev/null''), (''content'', JStr ''hi'')])
          (start [''file-plugin.py'', ''write''] [] False [])) = JObj [(''success'', JBool True)] \<and>
   fst (file_execute sample_lib ''read'' (JObj [(''path'', JStr ''/dev/null'')])
          (start [''file-plugin.py'', ''read''] [] False
             (disk (snd (file_execute sample_lib ''write''
                (JObj [(''path'', JStr ''/dev/null''), (''content'', JStr ''hi'')])
                (start [''file-plugin.py'', ''write''] [] False []))))))
     \<noteq> JObj [(''content'', JStr ''hi'')] \<and>
   fst (file_execute sample_lib ''read'' (JObj [(''path'', JStr ''/dev/null'')])
          (start [''file-plugin.py'', ''read''] [] False
             (disk (snd (file_execute sample_lib ''write''
                (JObj [(''path'', JStr ''/dev/null''), (''content'', JStr ''hi'')])
                (start [''file-plugin.py'', ''write''] [] False []))))))
     = JObj [(''content'', JStr [])]"
  by (simp add: file_execute_def file_dispatch_def file_handle_write_def file_handle_read_def
        dict_get_def with_open_write_def with_open_read_def catch_all_def write_newlines_def
        start_def sample_simps)

text \<open>
  In the sample library \<^verbatim>\<open>/dev/null\<close> is no regular file on any disk, and every other
  path is one on every disk.
\<close>

lemma sample_regular_file: "regular_file sample_lib d f \<longleftrightarrow> f \<noteq> ''/dev/null''"
proof
  assume r: "regular_file sample_lib d f"
  show "f \<noteq> ''/dev/null''"
  proof
    assume "f = ''/dev/null''"
    with r have "\<forall>s. ([] :: string) = s"
      unfolding regular_file_def by (simp add: sample_simps)
    then have "([] :: string) = ''x''" by (rule spec)
    then show False by simp
  qed
next
  assume "f \<noteq> ''/dev/null''"
  then show "regular_file sample_lib d f"
    by (auto simp: regular_file_def sample_simps)
qed

subsection \<open>The calculator is deterministic\<close>

lemma calc_execute_state:
  "calc_execute L action params p = (fst (calc_execute L action params q), p)"
  by (simp add: calc_execute_def calc_dispatch_def calc_handle_calculate_def catch_all_def
      split: sum.splits)

lemma calc_execute_pure: "\<exists>r. \<forall>p. calc_execute L action params p = (r, p)"
proof -
  have "\<forall>p. calc_execute L action params p = (fst (calc_execute L action params undefined), p)"
    by (rule allI) (rule calc_execute_state)
  then show ?thesis by blast
qed

text \<open>
  Exit status and output of \<^verbatim>\<open>test-calc.py calculate\<close> are functions of the library
  and of the content of standard input alone.
\<close>

lemma calc_main_outcome:
  "\<exists>c out. \<forall>prog rest seekable d.
     fst (calc_main L (start (prog # ''calculate'' # rest) input seekable d)) = c \<and>
     stdout (snd (calc_main L (start (prog # ''calculate'' # rest) input seekable d))) = out"
proof -
  let ?X = "if strip input \<noteq> [] then json_loads L (strip input) else Inr (JObj [])"
  have rd: "read_params L (start args input seekable d) =
              except_JSONDecodeError (?X, (start args input seekable d)\<lparr>stdin_pos := length input\<rparr>)"
    for args seekable and d :: 'a
    by (simp add: read_params_def stdin_read_def Let_def start_def)
  show ?thesis
  proof (cases "\<exists>e. ?X = Inl e \<and> \<not> is_JSONDecodeError e")
    case True
    then obtain e where e: "?X = Inl e" "\<not> is_JSONDecodeError e" by blast
    have "calc_main L (start (prog # ''calculate'' # rest) input seekable d) =
            (1, (start (prog # ''calculate'' # rest) input seekable d)\<lparr>stdin_pos := length input\<rparr>)"
      for prog rest seekable and d :: 'a
      unfolding calc_main_def plugin_main_def rd
      using e by (simp add: except_JSONDecodeError_def py_exit_def start_def)
    then have "\<forall>prog rest seekable (d :: 'a).
        fst (calc_main L (start (prog # ''calculate'' # rest) input seekable d)) = 1 \<and>
        stdout (snd (calc_main L (start (prog # ''calculate'' # rest) input seekable d))) = []"
      by (simp add: start_def)
    then show ?thesis by blast
  next
    case False
    then obtain params where ps: "\<And>p :: 'a proc. except_JSONDecodeError (?X, p) = (Inr params, p)"
      by (cases ?X) (auto simp: except_JSONDecodeError_def)
    obtain r where r: "\<And>p. calc_execute L ''calculate'' params p = (r, p)"
      using calc_execute_pure [of L "''calculate''" params] by blast
    have "calc_main L (start (prog # ''calculate'' # rest) input seekable d) =
            (0, (start (prog # ''calculate'' # rest) input seekable d)
                  \<lparr>stdin_pos := length input, stdout := [Doc r]\<rparr>)"
      for prog rest seekable and d :: 'a
      unfolding calc_main_def plugin_main_def rd ps
      by (simp add: r py_exit_def py_print_def start_def)
    then have "\<forall>prog rest seekable (d :: 'a).
        fst (calc_main L (start (prog # ''calculate'' # rest) input seekable d)) = 0 \<and>
        stdout (snd (calc_main L (start (prog # ''calculate'' # rest) input seekable d))) = [Doc r]"
      by (simp add: start_def)
    then show ?thesis by blast
  qed
qed

text \<open>
  Claim C9. Two invocations of \<^verbatim>\<open>calculate\<close> with identical input produce identical
  results: the result of \<^verbatim>\<open>execute\<close> depends on the params only and the process state is
  left as it was; two processes started with \<^verbatim>\<open>calculate\<close> on the same standard input
  end with the same exit status and the same output, whatever the program name, further
  arguments, kind of input stream and disk; and \<^verbatim>\<open>2+2\<close> with no precision given is
  evaluated and rounded to the default of 2 digits.
\<close>

theorem calculate_deterministic:
  "fst (calc_execute L ''calculate'' params p) = fst (calc_execute L ''calculate'' params q) \<and>
   snd (calc_execute L ''calculate'' params p) = p \<and>
   fst (calc_main L (start (prog # ''calculate'' # rest) input seekable d)) =
     fst (calc_main L (start (prog' # ''calculate'' # rest') input seekable' d')) \<and>
   stdout (snd (calc_main L (start (prog # ''calculate'' # rest) input seekable d))) =
     stdout (snd (calc_main L (start (prog' # ''calculate'' # rest') input seekable' d'))) \<and>
   fst (calc_execute L ''calculate'' (JObj [(''expression'', JStr ''2+2'')]) p) =
     (case calc_evaluate L (JStr ''2+2'') (JInt 2) of
        Inl m \<Rightarrow> error_obj (''Invalid expression: '' @ m)
      | Inr r \<Rightarrow> JObj [(''result'', r), (''expression'', JStr ''2+2'')])"
proof -
  obtain r where r: "\<And>p. calc_execute L ''calculate'' params p = (r, p)"
    using calc_execute_pure [of L "''calculate''" params] by blast
  have 1: "fst (calc_execute L ''calculate'' params p) = fst (calc_execute L ''calculate'' params q)"
    and 2: "snd (calc_execute L ''calculate'' params p) = p"
    by (simp_all add: r)
  obtain c out where m: "\<And>prog rest seekable d.
     fst (calc_main L (start (prog # ''calculate'' # rest) input seekable d)) = c \<and>
     stdout (snd (calc_main L (start (prog # ''calculate'' # rest) input seekable d))) = out"
    using calc_main_outcome [of L input] by blast
  have 3: "fst (calc_main L (start (prog # ''calculate'' # rest) input seekable d)) =
     fst (calc_main L (start (prog' # ''calculate'' # rest') input seekable' d'))"
    and 4: "stdout (snd (calc_main L (start (prog # ''calculate'' # rest) input seekable d))) =
     stdout (snd (calc_main L (start (prog' # ''calculate'' # rest') input seekable' d')))"
    by (simp_all add: m)
  have 5: "fst (calc_execute L ''calculate'' (JObj [(''expression'', JStr ''2+2'')]) p) =
     (case calc_evaluate L (JStr ''2+2'') (JInt 2) of
        Inl m \<Rightarrow> error_obj (''Invalid expression: '' @ m)
      | Inr r \<Rightarrow> JObj [(''result'', r), (''expression'', JStr ''2+2'')])"
    by (simp add: calc_execute_def calc_dispatch_def calc_handle_calculate_def catch_all_def
          dict_get_def all_allowed_def allowed_chars_def split: sum.splits)
  from 1 2 3 4 5 show ?thesis by blast
qed

subsection \<open>An empty path\<close>

text \<open>
  Claim C10. For \<^verbatim>\<open>read\<close> and \<^verbatim>\<open>write\<close> of the file plugin, a params object whose
  \<^verbatim>\<open>path\<close> is the empty string and one without \<^verbatim>\<open>path\<close> get the same answer,
  \<^verbatim>\<open>{"error": "path parameter is required"}\<close>, and the process state, the disk with it,
  is left as it was.
\<close>

theorem empty_path_as_absent:
  assumes "map_of kvs ''path'' = Some (JStr []) \<or> map_of kvs ''path'' = None"
    and "action = ''read'' \<or> action = ''write''"
  shows "file_execute L action (JObj kvs) p = (error_obj ''path parameter is required'', p)"
  using assms
  by (auto simp: file_execute_def file_dispatch_def file_handle_read_def file_handle_write_def
        dict_get_def catch_all_def)

theorem empty_path_as_absent_witness:
  "file_execute sample_lib ''write'' (JObj [(''path'', JStr []), (''content'', JStr ''x'')])
     (start [''file-plugin.py'', ''write''] [] False []) =
     (JObj [(''error'', JStr ''path parameter is required'')],
      start [''file-plugin.py'', ''write''] [] False []) \<and>
   file_execute sample_lib ''write'' (JObj [(''content'', JStr ''x'')])
     (start [''file-plugin.py'', ''write''] [] False []) =
     (JObj [(''error'', JStr ''path parameter is required'')],
      start [''file-plugin.py'', ''write''] [] False []) \<and>
   file_execute sample_lib ''read'' (JObj [(''path'', JStr [])])
     (start [''file-plugin.py'', ''read''] [] False []) =
     (JObj [(''error'', JStr ''path parameter is required'')],
      start [''file-plugin.py'', ''read''] [] False []) \<and>
   file_execute sample_lib ''read'' (JObj [])
     (start [''file-plugin.py'', ''read''] [] False []) =
     (JObj [(''error'', JStr ''path parameter is required'')],
      start [''file-plugin.py'', ''read''] [] False [])"
  using empty_path_as_absent [of "[(''path'', JStr []), (''content'', JStr ''x'')]" "''write''"
          sample_lib "start [''file-plugin.py'', ''write''] [] False []"]
        empty_path_as_absent [of "[(''content'', JStr ''x'')]" "''write''"
          sample_lib "start [''file-plugin.py'', ''write''] [] False []"]
        empty_path_as_absent [of "[(''path'', JStr [])]" "''read''"
          sample_lib "start [''file-plugin.py'', ''read''] [] False []"]
        empty_path_as_absent [of "[]" "''read''"
          sample_lib "start [''file-plugin.py'', ''read''] [] False []"]
  by (simp add: error_obj_def)

end
